theory Spec2Isabelle
  imports Complex_Main "HOL-Library.Sublist"
begin

section \<open>CodeMedic: the message handler of \<open>extension.js\<close>\<close>

text \<open>
  The extension keeps three module-level variables (\<open>currentPanel\<close>, \<open>pendingFixes\<close>,
  \<open>history\<close>) and handles one chat message at a time in \<open>onDidReceiveMessage\<close>. The
  embedding below follows \<open>src/extension.js\<close> function by function. Values that come back
  from the model are untyped JavaScript values, so they are modelled as parsed JSON with
  JavaScript's own rules for property access, truthiness and iteration. Everything the
  editor host and the Gemini service answer (the API key, the workspace folder, the file
  listing, the outcome of a write, the text the model generates), and the library
  functions of the JavaScript engine that the code calls (\<open>JSON.parse\<close>,
  \<open>String.prototype.toLowerCase\<close>, the printing of a number), are fields of an environment
  record, one environment per handled message. A string is the list of its characters,
  text outside ASCII as its UTF-8 bytes.
\<close>

subsection \<open>JavaScript values and errors\<close>

text \<open>
  A value produced by \<open>JSON.parse\<close>. A number is the rational it denotes (every finite
  double is one); the handler tests a number for truthiness and compares a \<open>length\<close> with
  0, and printing a number is left to the engine. An object is the list of its
  properties; \<open>JavaScript\<close>'s \<open>undefined\<close> is \<open>None\<close> of type \<open>json option\<close>.
\<close>

datatype json =
    JNull
  | JBool bool
  | JNum rat
  | JStr string
  | JArr "json list"
  | JObj "(string \<times> json) list"

text \<open>
  The exceptions the handler can see. Every \<open>throw\<close> of the source and every failure of a
  host call is one of these; \<open>err.message\<close> of the final \<open>catch\<close> is determined by the
  constructor. \<open>InvalidFixedCode p\<close> is \<open>Error(`Invalid fixedCode for ${file.path}`)\<close> with
  \<open>p\<close> the value of \<open>file.path\<close>; \<open>HostError m\<close> is an error raised by the editor or by the
  model service, with message \<open>m\<close>.
\<close>

datatype js_error =
    TypeError
  | NoJsonFound
  | ApiKeyNotSet
  | NoWorkspaceFolder
  | InvalidFixedCode "json option"
  | HostError string

text \<open>Truthiness of a JavaScript value (\<open>!v\<close> is its negation).\<close>

fun truthy :: "json option \<Rightarrow> bool" where
  "truthy None = False"
| "truthy (Some JNull) = False"
| "truthy (Some (JBool b)) = b"
| "truthy (Some (JNum n)) = (n \<noteq> 0)"
| "truthy (Some (JStr s)) = (s \<noteq> [])"
| "truthy (Some (JArr xs)) = True"
| "truthy (Some (JObj kvs)) = True"

text \<open>
  Property access \<open>v.k\<close>. Reading a property of \<open>null\<close> or \<open>undefined\<close> throws a
  \<open>TypeError\<close>; a primitive has no own properties except the \<open>length\<close> of a string; an array
  has its \<open>length\<close>; an object has what was parsed into it. (The handler compares a
  \<open>length\<close> with 0 and does nothing else with it.)
\<close>

fun get_prop :: "json option \<Rightarrow> string \<Rightarrow> js_error + json option" where
  "get_prop None k = Inl TypeError"
| "get_prop (Some JNull) k = Inl TypeError"
| "get_prop (Some (JBool b)) k = Inr None"
| "get_prop (Some (JNum n)) k = Inr None"
| "get_prop (Some (JStr s)) k = Inr (if k = ''length'' then Some (JNum (of_nat (length s))) else None)"
| "get_prop (Some (JArr xs)) k = Inr (if k = ''length'' then Some (JNum (of_nat (length xs))) else None)"
| "get_prop (Some (JObj kvs)) k = Inr (map_of kvs k)"

text \<open>\<open>typeof v === 'string'\<close>.\<close>

fun is_string :: "json option \<Rightarrow> bool" where
  "is_string (Some (JStr s)) = True"
| "is_string v = False"

text \<open>
  The values a \<open>for (const x of v)\<close> loop runs over: the elements of an array, the
  characters of a string; anything else is not iterable.
\<close>

fun iterate :: "json option \<Rightarrow> js_error + json list" where
  "iterate (Some (JArr xs)) = Inr xs"
| "iterate (Some (JStr s)) = Inr (map (\<lambda>c. JStr [c]) s)"
| "iterate v = Inl TypeError"

subsection \<open>Strings\<close>

text \<open>\<open>t.includes(s)\<close>: \<open>s\<close> occurs in \<open>t\<close> at some position.\<close>

fun str_includes :: "string \<Rightarrow> string \<Rightarrow> bool" where
  "str_includes [] s = (s = [])"
| "str_includes (c # t) s = (prefix s (c # t) \<or> str_includes t s)"

subsection \<open>\<open>isCodeReviewRequest\<close>\<close>

text \<open>
  \<open>text.toLowerCase()\<close> is the engine's, Unicode-aware lower-casing; the function is its
  first argument here, so that what is proved holds for the engine's function whatever
  it does to a text.
\<close>

definition isCodeReviewRequest :: "(string \<Rightarrow> string) \<Rightarrow> string \<Rightarrow> bool" where
  "isCodeReviewRequest lower text =
     (let t = lower text in
        str_includes t ''review'' \<or>
        str_includes t ''analyse'' \<or>
        str_includes t ''analyze'' \<or>
        str_includes t ''check'' \<or>
        str_includes t ''bug'' \<or>
        str_includes t ''issue'' \<or>
        str_includes t ''fix'' \<or>
        str_includes t ''correct'' \<or>
        str_includes t ''improve'' \<or>
        str_includes t ''code'' \<and> str_includes t ''file'')"

subsection \<open>\<open>extractJson\<close>\<close>

text \<open>\<open>indexOf\<close> and \<open>lastIndexOf\<close> of a character; \<open>None\<close> is the source's \<open>-1\<close>.\<close>

fun indexOf :: "string \<Rightarrow> char \<Rightarrow> nat option" where
  "indexOf [] c = None"
| "indexOf (x # xs) c = (if x = c then Some 0 else map_option Suc (indexOf xs c))"

definition lastIndexOf :: "string \<Rightarrow> char \<Rightarrow> nat option" where
  "lastIndexOf s c =
     (case indexOf (rev s) c of None \<Rightarrow> None | Some i \<Rightarrow> Some (length s - 1 - i))"

text \<open>\<open>s.slice(a, b)\<close> for indices within the string: empty when \<open>b \<le> a\<close>.\<close>

definition slice :: "string \<Rightarrow> nat \<Rightarrow> nat \<Rightarrow> string" where
  "slice s a b = take (b - a) (drop a s)"

definition extractJson :: "string \<Rightarrow> js_error + string" where
  "extractJson text =
     (case (indexOf text (CHR ''{''), lastIndexOf text (CHR ''}'')) of
        (Some firstBrace, Some lastBrace) \<Rightarrow> Inr (slice text firstBrace (lastBrace + 1))
      | _ \<Rightarrow> Inl NoJsonFound)"

subsection \<open>The host environment and the session state\<close>

datatype role = User | Model

text \<open>
  What the editor and the model service answer while one message is handled.
  \<^item> \<open>apiKey\<close>: \<open>config.get('apiKey')\<close>;
  \<^item> \<open>workspaceFolder\<close>: whether \<open>vscode.workspace.workspaceFolders?.[0]\<close> is defined;
  \<^item> \<open>joinPath\<close>: \<open>vscode.Uri.joinPath(workspaceFolder.uri, p)\<close>, the resolved file or the
    error it throws (\<open>p\<close> is whatever value \<open>file.path\<close> holds);
  \<^item> \<open>writeFileError\<close>: the error \<open>vscode.workspace.fs.writeFile\<close> throws for a file, if any;
  \<^item> \<open>findFiles\<close>: the listing \<open>vscode.workspace.findFiles\<close> returns for the fixed include
    and exclude globs;
  \<^item> \<open>generateContent\<close>: the model call on the given \<open>contents\<close>; its result is
    \<open>candidates?.[0]?.content?.parts?.[0]?.text\<close>, \<open>None\<close> when that is \<open>undefined\<close>;
  \<^item> \<open>jsonParse\<close>: \<open>JSON.parse\<close>, \<open>None\<close> when it throws a \<open>SyntaxError\<close>;
  \<^item> \<open>toLowerCase\<close>: \<open>String.prototype.toLowerCase\<close>;
  \<^item> \<open>numberToString\<close>: \<open>String(n)\<close> for a number \<open>n\<close>.
\<close>

record env =
  apiKey :: "string option"
  workspaceFolder :: bool
  joinPath :: "json option \<Rightarrow> js_error + string"
  writeFileError :: "string \<Rightarrow> js_error option"
  findFiles :: "js_error + string list"
  generateContent :: "(role \<times> string) list \<Rightarrow> js_error + string option"
  jsonParse :: "string \<Rightarrow> json option"
  toLowerCase :: "string \<Rightarrow> string"
  numberToString :: "rat \<Rightarrow> string"

text \<open>
  A \<open>botReply\<close> posted to the webview. Each constructor stands for one \<open>postMessage\<close> of
  the source: \<open>Checking\<close> 'Checking your code, please wait...', \<open>Reviewing\<close> 'Reviewing
  workspace files...', \<open>NoFilesFound\<close> 'No supported code files found in this workspace.',
  \<open>NoIssues\<close> 'No issues found. Your code looks good.', \<open>FixesPrepared\<close> 'I found issues and
  prepared fixes. Do you want me to apply them? (Yes / No)', \<open>RawText raw\<close> the fallback
  that shows the model's raw text, \<open>FixesApplied summary\<close> 'Fixes applied successfully.'
  followed by the summary, \<open>NotApplied\<close> 'Okay, fixes were not applied.', \<open>ChatReply r\<close>
  the model's reply, \<open>ErrorReply e\<close> 'Error: ' followed by \<open>err.message\<close>.
\<close>

datatype reply =
    Checking
  | Reviewing
  | NoFilesFound
  | NoIssues
  | FixesPrepared
  | RawText "string option"
  | FixesApplied string
  | NotApplied
  | ChatReply string
  | ErrorReply js_error

text \<open>
  The module-level state, the workspace files (file to content) and the replies posted so
  far. \<open>pendingFixes\<close> is \<open>JNull\<close> for the source's \<open>null\<close>.
\<close>

record session =
  pendingFixes :: json
  history :: "(role \<times> string) list"
  files :: "string \<rightharpoonup> string"
  outbox :: "reply list"

definition post :: "reply \<Rightarrow> session \<Rightarrow> session" where
  "post r s = s\<lparr>outbox := outbox s @ [r]\<rparr>"

subsection \<open>\<open>trimHistory\<close>\<close>

definition MAX_TURNS :: nat where
  "MAX_TURNS = 6"

definition trimHistory :: "(role \<times> string) list \<Rightarrow> (role \<times> string) list" where
  "trimHistory h =
     (let maxEntries = MAX_TURNS * 2 in
        if length h > maxEntries then drop (length h - maxEntries) h else h)"

subsection \<open>\<open>readWorkspaceFiles\<close>, \<open>buildReviewPrompt\<close>, \<open>getGeminiClient\<close>\<close>

definition readFile :: "(string \<rightharpoonup> string) \<Rightarrow> string \<Rightarrow> js_error + string" where
  "readFile fs uri =
     (case fs uri of None \<Rightarrow> Inl (HostError ''FileNotFound'') | Some content \<Rightarrow> Inr content)"

fun readAll :: "(string \<rightharpoonup> string) \<Rightarrow> string list \<Rightarrow> js_error + (string \<times> string) list" where
  "readAll fs [] = Inr []"
| "readAll fs (uri # uris) =
     (case readFile fs uri of
        Inl e \<Rightarrow> Inl e
      | Inr content \<Rightarrow>
          (case readAll fs uris of
             Inl e \<Rightarrow> Inl e
           | Inr rest \<Rightarrow> Inr ((uri, content) # rest)))"

definition readWorkspaceFiles :: "env \<Rightarrow> (string \<rightharpoonup> string) \<Rightarrow> js_error + (string \<times> string) list" where
  "readWorkspaceFiles e fs =
     (case findFiles e of Inl err \<Rightarrow> Inl err | Inr uris \<Rightarrow> readAll fs (take 10 uris))"

text \<open>\<open>xs.join(sep)\<close> on strings.\<close>

fun join_str :: "string \<Rightarrow> string list \<Rightarrow> string" where
  "join_str sep [] = []"
| "join_str sep [x] = x"
| "join_str sep (x # y # ys) = x @ sep @ join_str sep (y # ys)"

definition prompt_head :: string where
  \<open>prompt_head =
     ''\<newline>You are a senior software engineer.\<newline>'' @
     ''\<newline>RETURN ONLY VALID JSON.\<newline>'' @
     ''DO NOT add markdown.\<newline>'' @
     ''DO NOT add explanations.\<newline>'' @
     ''DO NOT wrap in ```.\<newline>'' @
     ''DO NOT add the word "json".\<newline>'' @
     ''\<newline>JSON SCHEMA (MUST MATCH EXACTLY):\<newline>'' @
     ''{\<newline>'' @
     ''  "files": [\<newline>'' @
     ''    {\<newline>'' @
     ''      "path": "relative/path/to/file.js",\<newline>'' @
     ''      "issues": ["string"],\<newline>'' @
     ''      "fixedCode": "FULL corrected file content"\<newline>'' @
     ''    }\<newline>'' @
     ''  ]\<newline>'' @
     ''}\<newline>'' @
     ''\<newline>FILES:\<newline>''\<close>

definition buildReviewPrompt :: "(string \<times> string) list \<Rightarrow> string" where
  "buildReviewPrompt fs =
     prompt_head @
     join_str ''\<newline>''
       (map (\<lambda>(path, content). ''\<newline>--- '' @ path @ '' ---\<newline>'' @ content @ ''\<newline>'') fs) @
     ''\<newline>''"

text \<open>
  \<open>getGeminiClient\<close> throws when \<open>apiKey\<close> is falsy (unset or empty). Loading the client
  library is taken to succeed, and the client object is used only through
  \<open>generateContent\<close>, so the result carries no value.
\<close>

definition getGeminiClient :: "env \<Rightarrow> js_error + unit" where
  "getGeminiClient e =
     (case apiKey e of
        None \<Rightarrow> Inl ApiKeyNotSet
      | Some k \<Rightarrow> if k = [] then Inl ApiKeyNotSet else Inr ())"

subsection \<open>\<open>buildFixSummary\<close>\<close>

text \<open>
  \<open>String(v)\<close>, the conversion \<open>Array.prototype.join\<close> applies to an element that is
  neither \<open>null\<close> nor \<open>undefined\<close> (those give the empty string). A number is printed by
  the engine.
\<close>

fun js_string :: "env \<Rightarrow> json \<Rightarrow> string" where
  "js_string e JNull = ''null''"
| "js_string e (JBool b) = (if b then ''true'' else ''false'')"
| "js_string e (JNum n) = numberToString e n"
| "js_string e (JStr s) = s"
| "js_string e (JArr xs) = join_str '','' (map (\<lambda>x. if x = JNull then [] else js_string e x) xs)"
| "js_string e (JObj kvs) = ''[object Object]''"

definition join_elems :: "env \<Rightarrow> string \<Rightarrow> json list \<Rightarrow> string" where
  "join_elems e sep xs = join_str sep (map (\<lambda>x. if x = JNull then [] else js_string e x) xs)"

text \<open>\<open>path.split(/[\\/]/).pop()\<close>: what follows the last slash or backslash.\<close>

definition fileName :: "string \<Rightarrow> string" where
  "fileName path = rev (takeWhile (\<lambda>c. c \<noteq> CHR ''/'' \<and> c \<noteq> CHR 0x5C) (rev path))"

text \<open>The bullet and the dash of a summary line, in UTF-8.\<close>

definition bullet :: string where
  "bullet = [CHR 0xE2, CHR 0x80, CHR 0xA2]"

definition en_dash :: string where
  "en_dash = [CHR 0xE2, CHR 0x80, CHR 0x93]"

text \<open>
  One line of the summary. \<open>file.path.split\<close> exists only when \<open>file.path\<close> is a string,
  and \<open>file.issues.slice(0, 2).join\<close> only when \<open>file.issues\<close> is an array; every other
  shape throws a \<open>TypeError\<close>.
\<close>

definition summaryLine :: "env \<Rightarrow> json \<Rightarrow> js_error + string" where
  "summaryLine e file =
     (case get_prop (Some file) ''path'' of
        Inl err \<Rightarrow> Inl err
      | Inr (Some (JStr path)) \<Rightarrow>
          (case get_prop (Some file) ''issues'' of
             Inl err \<Rightarrow> Inl err
           | Inr (Some (JArr issues)) \<Rightarrow>
               Inr (bullet @ '' '' @ fileName path @ '' '' @ en_dash @ '' '' @
                    join_elems e '', '' (take 2 issues))
           | Inr _ \<Rightarrow> Inl TypeError)
      | Inr _ \<Rightarrow> Inl TypeError)"

fun summaryLines :: "env \<Rightarrow> json list \<Rightarrow> js_error + string list" where
  "summaryLines e [] = Inr []"
| "summaryLines e (file # rest) =
     (case summaryLine e file of
        Inl err \<Rightarrow> Inl err
      | Inr l \<Rightarrow>
          (case summaryLines e rest of
             Inl err \<Rightarrow> Inl err
           | Inr ls \<Rightarrow> Inr (l # ls)))"

text \<open>\<open>fixes.files.map(...)\<close> exists only when \<open>fixes.files\<close> is an array.\<close>

definition buildFixSummary :: "env \<Rightarrow> json \<Rightarrow> js_error + string" where
  "buildFixSummary e fixes =
     (case get_prop (Some fixes) ''files'' of
        Inl err \<Rightarrow> Inl err
      | Inr (Some (JArr fs)) \<Rightarrow>
          (case summaryLines e fs of
             Inl err \<Rightarrow> Inl err
           | Inr ls \<Rightarrow> Inr (join_str ''\<newline>'' ls))
      | Inr _ \<Rightarrow> Inl TypeError)"

subsection \<open>\<open>applyFixes\<close>\<close>

text \<open>
  The body of the \<open>for\<close> loop, entry by entry. The result is the workspace after the
  writes that were made, and the error that ended the loop, if any: a write that has
  happened stays when a later entry throws.
\<close>

fun applyEntries :: "env \<Rightarrow> (string \<rightharpoonup> string) \<Rightarrow> json list \<Rightarrow> (string \<rightharpoonup> string) \<times> js_error option" where
  "applyEntries e fs [] = (fs, None)"
| "applyEntries e fs (file # rest) =
     (case get_prop (Some file) ''fixedCode'' of
        Inl err \<Rightarrow> (fs, Some err)
      | Inr fixedCode \<Rightarrow>
          (case get_prop (Some file) ''path'' of
             Inl err \<Rightarrow> (fs, Some err)
           | Inr path \<Rightarrow>
               if \<not> truthy fixedCode \<or> \<not> is_string fixedCode then
                 (fs, Some (InvalidFixedCode path))
               else
                 (case joinPath e path of
                    Inl err \<Rightarrow> (fs, Some err)
                  | Inr uri \<Rightarrow>
                      (case writeFileError e uri of
                         Some err \<Rightarrow> (fs, Some err)
                       | None \<Rightarrow>
                           (case fixedCode of
                              Some (JStr code) \<Rightarrow> applyEntries e (fs(uri \<mapsto> code)) rest
                            | _ \<Rightarrow> (fs, Some TypeError))))))"

definition applyFixes :: "env \<Rightarrow> (string \<rightharpoonup> string) \<Rightarrow> json \<Rightarrow> (string \<rightharpoonup> string) \<times> js_error option" where
  "applyFixes e fs data =
     (if \<not> workspaceFolder e then (fs, Some NoWorkspaceFolder)
      else
        (case get_prop (Some data) ''files'' of
           Inl err \<Rightarrow> (fs, Some err)
         | Inr fls \<Rightarrow>
             (case iterate fls of
                Inl err \<Rightarrow> (fs, Some err)
              | Inr entries \<Rightarrow> applyEntries e fs entries)))"

subsection \<open>The message handler \<open>onDidReceiveMessage\<close>\<close>

record message =
  msg_type :: string
  msg_text :: string

text \<open>
  The inner \<open>try\<close> of the review branch: extract, parse, store, and discard an empty
  result. Its \<open>catch\<close> shows the raw text; an assignment to \<open>pendingFixes\<close> made before the
  throw stays. \<open>files.length === 0\<close> compares the \<open>length\<close> property with the number 0.
\<close>

definition storeProposal :: "env \<Rightarrow> string option \<Rightarrow> session \<Rightarrow> session" where
  "storeProposal e raw s =
     (case raw of
        None \<Rightarrow> post (RawText raw) s
      | Some rawText \<Rightarrow>
          (case extractJson rawText of
             Inl err \<Rightarrow> post (RawText raw) s
           | Inr cleanJson \<Rightarrow>
               (case jsonParse e cleanJson of
                  None \<Rightarrow> post (RawText raw) s
                | Some parsed \<Rightarrow>
                    (case get_prop (Some parsed) ''files'' of
                       Inl err \<Rightarrow> post (RawText raw) (s\<lparr>pendingFixes := parsed\<rparr>)
                     | Inr fls \<Rightarrow>
                         if \<not> truthy fls \<or> get_prop fls ''length'' = Inr (Some (JNum 0)) then
                           post NoIssues (s\<lparr>pendingFixes := JNull\<rparr>)
                         else
                           post FixesPrepared (s\<lparr>pendingFixes := parsed\<rparr>)))))"

definition reviewBranch :: "env \<Rightarrow> session \<Rightarrow> session" where
  "reviewBranch e s =
     (let s1 = post Checking s in
        case readWorkspaceFiles e (files s1) of
          Inl err \<Rightarrow> post (ErrorReply err) s1
        | Inr fs \<Rightarrow>
            (let s2 = post Reviewing s1 in
               if length fs = 0 then post NoFilesFound s2
               else
                 (case generateContent e [(User, buildReviewPrompt fs)] of
                    Inl err \<Rightarrow> post (ErrorReply err) s2
                  | Inr raw \<Rightarrow> storeProposal e raw s2)))"

text \<open>
  The \<open>yes\<close>/\<open>apply\<close> branch: \<open>applyFixes\<close>, then \<open>buildFixSummary\<close>, then the success
  reply, then \<open>pendingFixes = null\<close>. A throw in either call goes to the handler's \<open>catch\<close>,
  which only posts the error.
\<close>

definition applyBranch :: "env \<Rightarrow> session \<Rightarrow> session" where
  "applyBranch e s =
     (case applyFixes e (files s) (pendingFixes s) of
        (fs, Some err) \<Rightarrow> post (ErrorReply err) (s\<lparr>files := fs\<rparr>)
      | (fs, None) \<Rightarrow>
          (case buildFixSummary e (pendingFixes s) of
             Inl err \<Rightarrow> post (ErrorReply err) (s\<lparr>files := fs\<rparr>)
           | Inr summary \<Rightarrow>
               (post (FixesApplied summary) (s\<lparr>files := fs\<rparr>))\<lparr>pendingFixes := JNull\<rparr>))"

definition rejectBranch :: "session \<Rightarrow> session" where
  "rejectBranch s = post NotApplied (s\<lparr>pendingFixes := JNull\<rparr>)"

definition fallbackReply :: string where
  "fallbackReply = ''Sorry, I could not generate a response.''"

text \<open>
  Normal chat: the user turn is pushed, the model is called on the whole history, the
  reply is pushed, the history is trimmed and the reply is posted. A throw of the model
  call goes to the handler's \<open>catch\<close>.
\<close>

definition chatBranch :: "env \<Rightarrow> session \<Rightarrow> string \<Rightarrow> session" where
  "chatBranch e s text =
     (let s1 = s\<lparr>history := history s @ [(User, text)]\<rparr> in
        case generateContent e (history s1) of
          Inl err \<Rightarrow> post (ErrorReply err) s1
        | Inr raw \<Rightarrow>
            (let reply = (case raw of None \<Rightarrow> fallbackReply
                          | Some r \<Rightarrow> if r = [] then fallbackReply else r);
                 s2 = s1\<lparr>history := trimHistory (history s1 @ [(Model, reply)])\<rparr>
             in post (ChatReply reply) s2))"

definition onDidReceiveMessage :: "env \<Rightarrow> session \<Rightarrow> message \<Rightarrow> session" where
  "onDidReceiveMessage e s m =
     (if msg_type m \<noteq> ''userMessage'' then s
      else
        (case getGeminiClient e of
           Inl err \<Rightarrow> post (ErrorReply err) s
         | Inr ai \<Rightarrow>
             if isCodeReviewRequest (toLowerCase e) (msg_text m) then reviewBranch e s
             else if truthy (Some (pendingFixes s)) \<and>
                     (toLowerCase e (msg_text m) = ''yes'' \<or> toLowerCase e (msg_text m) = ''apply'')
               then applyBranch e s
             else if truthy (Some (pendingFixes s)) \<and> toLowerCase e (msg_text m) = ''no''
               then rejectBranch s
             else chatBranch e s (msg_text m)))"


text \<open>
  Messages handled one after the other, each to completion, with one environment per
  message: the executions in which the next message arrives after the previous one
  was answered. (The handler is \<open>async\<close> and nothing serialises it; two messages in flight
  at once are not among these executions.)
\<close>

fun run :: "session \<Rightarrow> (env \<times> message) list \<Rightarrow> session" where
  "run s [] = s"
| "run s ((e, m) # rest) = run (onDidReceiveMessage e s m) rest"

subsection \<open>Auxiliary notions for stating the properties\<close>

text \<open>
  What one entry of a fix set makes \<open>applyFixes\<close> write, when the loop body runs through
  for it: the entry's \<open>fixedCode\<close> is a non-empty string, \<open>joinPath\<close> resolves its \<open>path\<close>
  and the host's write does not throw.
\<close>

definition entryWrite :: "env \<Rightarrow> json \<Rightarrow> (string \<times> string) option" where
  "entryWrite e entry =
     (case get_prop (Some entry) ''fixedCode'' of
        Inr (Some (JStr code)) \<Rightarrow>
          (if code = [] then None
           else
             (case get_prop (Some entry) ''path'' of
                Inl err \<Rightarrow> None
              | Inr path \<Rightarrow>
                  (case joinPath e path of
                     Inl err \<Rightarrow> None
                   | Inr uri \<Rightarrow>
                       (case writeFileError e uri of
                          Some err \<Rightarrow> None
                        | None \<Rightarrow> Some (uri, code)))))
      | _ \<Rightarrow> None)"


text \<open>The workspace after a sequence of writes, each replacing the whole file.\<close>

fun writeAll :: "(string \<rightharpoonup> string) \<Rightarrow> (string \<times> string) list \<Rightarrow> (string \<rightharpoonup> string)" where
  "writeAll fs [] = fs"
| "writeAll fs ((uri, code) # ws) = writeAll (fs(uri \<mapsto> code)) ws"

text \<open>
  The state when the extension is loaded (\<open>pendingFixes = null\<close>, \<open>history = []\<close>), on an
  empty workspace, and concrete inputs for the examples: a host where every call
  succeeds, and fix sets of the wire format.
\<close>

definition initial :: session where
  "initial = \<lparr>pendingFixes = JNull, history = [], files = Map.empty, outbox = []\<rparr>"

definition userMessage :: "string \<Rightarrow> message" where
  "userMessage t = \<lparr>msg_type = ''userMessage'', msg_text = t\<rparr>"

text \<open>
  The lower-casing of the example host changes the letters A to Z and nothing else, as
  the engine does on ASCII text; its printing of a number gives the decimal digits of a
  whole number. The examples use ASCII messages and print no number.
\<close>

definition lower_char :: "char \<Rightarrow> char" where
  "lower_char c =
     (let n = (of_char c :: nat) in if 65 \<le> n \<and> n \<le> 90 then char_of (n + 32) else c)"

definition asciiLower :: "string \<Rightarrow> string" where
  "asciiLower s = map lower_char s"

function show_nat :: "nat \<Rightarrow> string" where
  "show_nat n =
     (if n < 10 then [char_of (48 + n)] else show_nat (n div 10) @ [char_of (48 + n mod 10)])"
  by pat_completeness auto
termination
  by (relation "measure id") auto

definition show_int :: "int \<Rightarrow> string" where
  "show_int i = (if i < 0 then CHR ''-'' # show_nat (nat (- i)) else show_nat (nat i))"

definition host :: env where
  "host =
     \<lparr>apiKey = Some ''key'',
      workspaceFolder = True,
      joinPath = (\<lambda>p. case p of Some (JStr path) \<Rightarrow> Inr path | _ \<Rightarrow> Inl (HostError ''path'')),
      writeFileError = (\<lambda>uri. None),
      findFiles = Inr [''a.js''],
      generateContent = (\<lambda>contents. Inr (Some ''Hello!'')),
      jsonParse = (\<lambda>t. None),
      toLowerCase = asciiLower,
      numberToString = (\<lambda>q. show_int \<lfloor>q\<rfloor>)\<rparr>"

definition fixEntry :: "string \<Rightarrow> json \<Rightarrow> json" where
  "fixEntry path code =
     JObj [(''path'', JStr path), (''issues'', JArr [JStr ''x'']), (''fixedCode'', code)]"

definition fixSet :: "json list \<Rightarrow> json" where
  "fixSet entries = JObj [(''files'', JArr entries)]"

text \<open>Further inputs for the examples: an entry without \<open>issues\<close>, and a host whose model
  answers \<open>prefix {"files":[]} suffix\<close> and whose parser reads the extracted object.\<close>

definition noIssuesEntry :: "string \<Rightarrow> json \<Rightarrow> json" where
  "noIssuesEntry path code = JObj [(''path'', JStr path), (''fixedCode'', code)]"

definition emptyFilesJson :: string where
  "emptyFilesJson = [CHR ''{'', CHR 0x22] @ ''files'' @ [CHR 0x22] @ '':[]}''"

definition emptyFilesResponse :: string where
  "emptyFilesResponse = ''prefix '' @ emptyFilesJson @ '' suffix''"

definition parsingHost :: env where
  "parsingHost =
     host\<lparr>generateContent := (\<lambda>contents. Inr (Some emptyFilesResponse)),
          jsonParse := (\<lambda>t. if t = emptyFilesJson then Some (JObj [(''files'', JArr [])]) else None)\<rparr>"

text \<open>A host whose model service is down: \<open>generateContent\<close> throws.\<close>

definition downHost :: env where
  "downHost = host\<lparr>generateContent := (\<lambda>contents. Inl (HostError ''503 Service Unavailable''))\<rparr>"

text \<open>A history made of whole pairs: a user turn followed by a model turn, repeatedly.\<close>

fun paired :: "(role \<times> string) list \<Rightarrow> bool" where
  "paired [] = True"
| "paired [x] = False"
| "paired (x # y # rest) = (fst x = User \<and> fst y = Model \<and> paired rest)"

text \<open>Six chat messages, each answered by the model.\<close>

definition sixChats :: "(env \<times> message) list" where
  "sixChats = replicate 6 (host, userMessage ''hello'')"







text \<open>
  A lower-casing that, as the engine does, also lowers U+212A KELVIN SIGN (the bytes
  E2 84 AA) to \<open>k\<close>.
\<close>

definition kelvinSign :: string where
  "kelvinSign = [CHR 0xE2, CHR 0x84, CHR 0xAA]"

fun lowerWithKelvin :: "string \<Rightarrow> string" where
  "lowerWithKelvin (a # b # c # rest) =
     (if a = CHR 0xE2 \<and> b = CHR 0x84 \<and> c = CHR 0xAA then CHR ''k'' # lowerWithKelvin rest
      else lower_char a # lowerWithKelvin (b # c # rest))"
| "lowerWithKelvin (a # rest) = lower_char a # lowerWithKelvin rest"
| "lowerWithKelvin [] = []"


section \<open>Properties\<close>

lemma str_includes_sublist: "str_includes t s \<longleftrightarrow> sublist s t"
  by (induction t) (auto simp: sublist_Cons_right)

text \<open>
  C6. Whatever the engine's lower-casing does to a text, a message is classified as a
  review request exactly when its lower-cased text contains one of the nine keywords, or
  contains both \<open>code\<close> and \<open>file\<close>; every other message is a chat message. The
  classification is a function of the lower-cased text alone.
\<close>

theorem classify_review_iff:
  "isCodeReviewRequest lower text \<longleftrightarrow>
     (\<exists>k \<in> set [''review'', ''analyse'', ''analyze'', ''check'', ''bug'', ''issue'',
                 ''fix'', ''correct'', ''improve''].
        sublist k (lower text))
     \<or> (sublist ''code'' (lower text) \<and> sublist ''file'' (lower text))"
  by (simp add: isCodeReviewRequest_def Let_def str_includes_sublist del: str_includes.simps)

text \<open>
  A keyword in upper case is found; a greeting is a chat message; and \<open>CHEC\<close> followed by
  the Kelvin sign is a review request under a lower-casing that lowers the sign to \<open>k\<close>.
\<close>

theorem classify_review_iff_witness:
  "isCodeReviewRequest asciiLower ''ANALYZE it'' \<and>
   \<not> isCodeReviewRequest asciiLower ''Hello there'' \<and>
   isCodeReviewRequest lowerWithKelvin (''CHEC'' @ kelvinSign)"
proof -
  have a: "sublist ''analyze'' (asciiLower ''ANALYZE it'')"
    by code_simp
  have b: "\<not> ((\<exists>k \<in> set [''review'', ''analyse'', ''analyze'', ''check'', ''bug'', ''issue'',
                 ''fix'', ''correct'', ''improve''].
        sublist k (asciiLower ''Hello there''))
     \<or> (sublist ''code'' (asciiLower ''Hello there'') \<and> sublist ''file'' (asciiLower ''Hello there'')))"
    by code_simp
  have c: "sublist ''check'' (lowerWithKelvin (''CHEC'' @ kelvinSign))"
    by code_simp
  from a have "isCodeReviewRequest asciiLower ''ANALYZE it''"
    unfolding classify_review_iff by simp
  moreover from b have "\<not> isCodeReviewRequest asciiLower ''Hello there''"
    unfolding classify_review_iff .
  moreover from c have "isCodeReviewRequest lowerWithKelvin (''CHEC'' @ kelvinSign)"
    unfolding classify_review_iff by simp
  ultimately show ?thesis by simp
qed

subsection \<open>The apply loop and the confirmation tokens\<close>

lemma applyEntries_accepted:
  "entryWrite e entry = Some (uri, code) \<Longrightarrow>
     applyEntries e fs (entry # rest) = applyEntries e (fs(uri \<mapsto> code)) rest"
  by (auto simp: entryWrite_def split: sum.splits option.splits json.splits if_splits)


lemma applyEntries_prefix:
  "map (entryWrite e) pre = map Some ws \<Longrightarrow>
     applyEntries e fs (pre @ rest) = applyEntries e (writeAll fs ws) rest"
proof (induction pre arbitrary: fs ws)
  case Nil
  then show ?case by simp
next
  case (Cons x pre)
  then obtain w ws' where ws: "ws = w # ws'" "entryWrite e x = Some w"
    "map (entryWrite e) pre = map Some ws'"
    by (cases ws) auto
  obtain uri code where w: "w = (uri, code)" by (cases w)
  have "applyEntries e fs ((x # pre) @ rest) = applyEntries e (fs(uri \<mapsto> code)) (pre @ rest)"
    using ws(2) w by (simp add: applyEntries_accepted del: applyEntries.simps)
  also have "\<dots> = applyEntries e (writeAll (fs(uri \<mapsto> code)) ws') rest"
    by (rule Cons.IH[OF ws(3)])
  finally show ?case
    using ws(1) w by simp
qed

lemma yes_not_review: "lower t = ''yes'' \<Longrightarrow> \<not> isCodeReviewRequest lower t"
  by (simp add: isCodeReviewRequest_def)

lemma apply_not_review: "lower t = ''apply'' \<Longrightarrow> \<not> isCodeReviewRequest lower t"
  by (simp add: isCodeReviewRequest_def)


lemma files_prop_truthy:
  "get_prop (Some v) ''files'' = Inr (Some x) \<Longrightarrow> truthy (Some v)"
  by (cases v) (auto split: if_splits)

lemma handler_yes:
  assumes "msg_type m = ''userMessage''" and "getGeminiClient e = Inr ()"
    and "truthy (Some (pendingFixes s))"
    and "toLowerCase e (msg_text m) = ''yes'' \<or> toLowerCase e (msg_text m) = ''apply''"
  shows "onDidReceiveMessage e s m = applyBranch e s"
  using assms by (auto simp: onDidReceiveMessage_def yes_not_review apply_not_review)

text \<open>
  C1, as the code has it. When the user confirms a pending fix set with \<open>yes\<close> or \<open>apply\<close>
  and \<open>applyFixes\<close> throws, the handler's \<open>catch\<close> posts the error as the one new reply,
  and the pending fix set is not cleared: it stays exactly as it was. The writes made
  before the throw stay, and the history is untouched.
\<close>

theorem apply_failure_keeps_pending:
  assumes "msg_type m = ''userMessage''" and "getGeminiClient e = Inr ()"
    and "truthy (Some (pendingFixes s))"
    and "toLowerCase e (msg_text m) = ''yes'' \<or> toLowerCase e (msg_text m) = ''apply''"
    and "applyFixes e (files s) (pendingFixes s) = (fs, Some err)"
  shows "outbox (onDidReceiveMessage e s m) = outbox s @ [ErrorReply err] \<and>
         pendingFixes (onDidReceiveMessage e s m) = pendingFixes s \<and>
         files (onDidReceiveMessage e s m) = fs \<and>
         history (onDidReceiveMessage e s m) = history s"
  using assms(5) by (simp add: handler_yes[OF assms(1-4)] applyBranch_def post_def)

text \<open>The theorem at a pending entry whose \<open>fixedCode\<close> is the number 42, confirmed with \<open>YES\<close>.\<close>

theorem apply_failure_keeps_pending_witness:
  "outbox (onDidReceiveMessage host (initial\<lparr>pendingFixes := fixSet [fixEntry ''a.js'' (JNum 42)]\<rparr>)
             (userMessage ''YES'')) = [ErrorReply (InvalidFixedCode (Some (JStr ''a.js'')))] \<and>
   pendingFixes (onDidReceiveMessage host (initial\<lparr>pendingFixes := fixSet [fixEntry ''a.js'' (JNum 42)]\<rparr>)
             (userMessage ''YES'')) = fixSet [fixEntry ''a.js'' (JNum 42)]"
proof -
  let ?s = "initial\<lparr>pendingFixes := fixSet [fixEntry ''a.js'' (JNum 42)]\<rparr>"
  have 1: "msg_type (userMessage ''YES'') = ''userMessage''"
    by (simp add: userMessage_def)
  have 2: "getGeminiClient host = Inr ()"
    by (simp add: getGeminiClient_def host_def)
  have 3: "truthy (Some (pendingFixes ?s))"
    by (simp add: fixSet_def)
  have 4: "toLowerCase host (msg_text (userMessage ''YES'')) = ''yes'' \<or>
           toLowerCase host (msg_text (userMessage ''YES'')) = ''apply''"
    unfolding userMessage_def by code_simp
  have 5: "applyFixes host (files ?s) (pendingFixes ?s) =
             (Map.empty, Some (InvalidFixedCode (Some (JStr ''a.js''))))"
    by (simp add: applyFixes_def host_def fixSet_def fixEntry_def initial_def)
  from apply_failure_keeps_pending[OF 1 2 3 4 5] show ?thesis
    by (simp add: initial_def)
qed

text \<open>
  The claim as written fails: a pending entry with \<open>fixedCode: null\<close> is confirmed with
  \<open>yes\<close>; the error is reported and \<open>pendingFixes\<close> is still set afterwards.
\<close>

theorem apply_failure_not_cleared_example:
  "pendingFixes (onDidReceiveMessage host (initial\<lparr>pendingFixes := fixSet [fixEntry ''a.js'' JNull]\<rparr>)
             (userMessage ''yes'')) \<noteq> JNull \<and>
   outbox (onDidReceiveMessage host (initial\<lparr>pendingFixes := fixSet [fixEntry ''a.js'' JNull]\<rparr>)
             (userMessage ''yes'')) = [ErrorReply (InvalidFixedCode (Some (JStr ''a.js'')))]"
  by (simp add: onDidReceiveMessage_def userMessage_def getGeminiClient_def host_def
      isCodeReviewRequest_def asciiLower_def lower_char_def applyBranch_def applyFixes_def
      fixSet_def fixEntry_def initial_def post_def)

subsection \<open>Applying fixes, the summary, and the review branch\<close>

lemma applyFixes_array:
  "workspaceFolder e \<Longrightarrow> get_prop (Some data) ''files'' = Inr (Some (JArr entries)) \<Longrightarrow>
     applyFixes e fs data = applyEntries e fs entries"
  by (simp add: applyFixes_def)

lemma get_prop_Some_cases:
  "get_prop (Some v) k = Inl err \<Longrightarrow> v = JNull \<and> err = TypeError"
  by (cases v) auto

lemma summaryLine_error: "summaryLine e entry = Inl err \<Longrightarrow> err = TypeError"
  by (auto simp: summaryLine_def split: sum.splits option.splits json.splits dest: get_prop_Some_cases)

lemma summaryLine_no_issues:
  "get_prop (Some entry) ''issues'' = Inr None \<Longrightarrow> summaryLine e entry = Inl TypeError"
  by (auto simp: summaryLine_def split: sum.splits option.splits json.splits dest: get_prop_Some_cases)

lemma summaryLines_fail:
  "entry \<in> set entries \<Longrightarrow> summaryLine e entry = Inl TypeError \<Longrightarrow>
     summaryLines e entries = Inl TypeError"
proof (induction entries)
  case Nil
  then show ?case by simp
next
  case (Cons x entries)
  show ?case
  proof (cases "summaryLine e x")
    case (Inl err)
    then show ?thesis using summaryLine_error[OF Inl] by simp
  next
    case (Inr l)
    with Cons.prems have "entry \<in> set entries" by auto
    from Cons.IH[OF this Cons.prems(2)] Inr show ?thesis by simp
  qed
qed

text \<open>
  C10. Let every entry of the pending fix set carry a non-empty string \<open>fixedCode\<close> that
  the host writes, and let one entry have no \<open>issues\<close> field. Confirming with \<open>yes\<close> or
  \<open>apply\<close> writes all the files; \<open>buildFixSummary\<close> then throws, so the one reply posted
  is the error and not the success message, and \<open>pendingFixes\<close> is not cleared.
\<close>

theorem missing_issues_breaks_summary:
  assumes "msg_type m = ''userMessage''" and "getGeminiClient e = Inr ()"
    and "toLowerCase e (msg_text m) = ''yes'' \<or> toLowerCase e (msg_text m) = ''apply''"
    and "workspaceFolder e"
    and "get_prop (Some (pendingFixes s)) ''files'' = Inr (Some (JArr entries))"
    and "map (entryWrite e) entries = map Some ws"
    and "entry \<in> set entries"
    and "get_prop (Some entry) ''issues'' = Inr None"
  shows "files (onDidReceiveMessage e s m) = writeAll (files s) ws \<and>
         outbox (onDidReceiveMessage e s m) = outbox s @ [ErrorReply TypeError] \<and>
         pendingFixes (onDidReceiveMessage e s m) = pendingFixes s \<and>
         truthy (Some (pendingFixes (onDidReceiveMessage e s m)))"
proof -
  have pending: "truthy (Some (pendingFixes s))"
    using assms(5) by (rule files_prop_truthy)
  have "applyFixes e (files s) (pendingFixes s) = applyEntries e (files s) (entries @ [])"
    using assms(4,5) by (simp add: applyFixes_array)
  also have "\<dots> = applyEntries e (writeAll (files s) ws) []"
    using assms(6) by (rule applyEntries_prefix)
  finally have written: "applyFixes e (files s) (pendingFixes s) = (writeAll (files s) ws, None)"
    by simp
  have "summaryLines e entries = Inl TypeError"
    using assms(7) summaryLine_no_issues[OF assms(8)] by (rule summaryLines_fail)
  then have summary: "buildFixSummary e (pendingFixes s) = Inl TypeError"
    using assms(5) by (simp add: buildFixSummary_def)
  show ?thesis
    using pending
    by (simp add: handler_yes[OF assms(1,2) pending assms(3)] applyBranch_def written summary post_def)
qed

text \<open>One entry without \<open>issues\<close>: the file is written, a \<open>TypeError\<close> is reported.\<close>

theorem missing_issues_breaks_summary_witness:
  "files (onDidReceiveMessage host (initial\<lparr>pendingFixes := fixSet [noIssuesEntry ''a.js'' (JStr ''let a = 1'')]\<rparr>)
            (userMessage ''yes'')) ''a.js'' = Some ''let a = 1'' \<and>
   outbox (onDidReceiveMessage host (initial\<lparr>pendingFixes := fixSet [noIssuesEntry ''a.js'' (JStr ''let a = 1'')]\<rparr>)
            (userMessage ''yes'')) = [ErrorReply TypeError] \<and>
   pendingFixes (onDidReceiveMessage host (initial\<lparr>pendingFixes := fixSet [noIssuesEntry ''a.js'' (JStr ''let a = 1'')]\<rparr>)
            (userMessage ''yes'')) = fixSet [noIssuesEntry ''a.js'' (JStr ''let a = 1'')]"
proof -
  let ?entry = "noIssuesEntry ''a.js'' (JStr ''let a = 1'')"
  let ?s = "initial\<lparr>pendingFixes := fixSet [?entry]\<rparr>"
  have 1: "msg_type (userMessage ''yes'') = ''userMessage''"
    by (simp add: userMessage_def)
  have 2: "getGeminiClient host = Inr ()"
    by (simp add: getGeminiClient_def host_def)
  have 3: "toLowerCase host (msg_text (userMessage ''yes'')) = ''yes'' \<or>
           toLowerCase host (msg_text (userMessage ''yes'')) = ''apply''"
    unfolding userMessage_def by code_simp
  have 4: "workspaceFolder host"
    by (simp add: host_def)
  have 5: "get_prop (Some (pendingFixes ?s)) ''files'' = Inr (Some (JArr [?entry]))"
    by (simp add: fixSet_def)
  have 6: "map (entryWrite host) [?entry] = map Some [(''a.js'', ''let a = 1'')]"
    by (simp add: entryWrite_def noIssuesEntry_def host_def)
  have 7: "?entry \<in> set [?entry]"
    by simp
  have 8: "get_prop (Some ?entry) ''issues'' = Inr None"
    by (simp add: noIssuesEntry_def)
  from missing_issues_breaks_summary[OF 1 2 3 4 5 6 7 8] show ?thesis
    by (simp add: initial_def)
qed

text \<open>
  C7. A message classified as a review request goes to the review branch before any
  gate token is looked at, whatever \<open>pendingFixes\<close> holds: the handler does what the
  review branch does, no file is written, the history is untouched, the first new
  reply is the review's \<open>Checking\<close> notice, and neither the \<open>applied\<close> nor the \<open>not applied\<close>
  reply is posted.
\<close>

theorem review_precedes_gate:
  assumes "msg_type m = ''userMessage''" and "getGeminiClient e = Inr ()"
    and "isCodeReviewRequest (toLowerCase e) (msg_text m)"
  shows "onDidReceiveMessage e s m = reviewBranch e s \<and>
         files (onDidReceiveMessage e s m) = files s \<and>
         history (onDidReceiveMessage e s m) = history s \<and>
         (\<exists>rest. outbox (onDidReceiveMessage e s m) = outbox s @ Checking # rest \<and>
                 NotApplied \<notin> set rest \<and> (\<forall>summary. FixesApplied summary \<notin> set rest))"
proof -
  have h: "onDidReceiveMessage e s m = reviewBranch e s"
    using assms by (simp add: onDidReceiveMessage_def)
  have f: "files (reviewBranch e s) = files s \<and> history (reviewBranch e s) = history s"
    by (simp add: reviewBranch_def storeProposal_def post_def Let_def
        split: sum.splits option.splits)
  have o: "\<exists>rest. outbox (reviewBranch e s) = outbox s @ Checking # rest \<and>
                 NotApplied \<notin> set rest \<and> (\<forall>summary. FixesApplied summary \<notin> set rest)"
    by (simp add: reviewBranch_def storeProposal_def post_def Let_def
        split: sum.splits option.splits)
  show ?thesis using h f o by simp
qed

text \<open>\<open>Yes, fix it\<close> while a fix for \<open>a.js\<close> is pending: a review runs, \<open>a.js\<close> keeps its content.\<close>

theorem review_precedes_gate_witness:
  "files (onDidReceiveMessage host
            (initial\<lparr>pendingFixes := fixSet [fixEntry ''a.js'' (JStr ''new'')],
                     files := Map.empty(''a.js'' \<mapsto> ''old'')\<rparr>)
            (userMessage ''Yes, fix it'')) ''a.js'' = Some ''old'' \<and>
   outbox (onDidReceiveMessage host
            (initial\<lparr>pendingFixes := fixSet [fixEntry ''a.js'' (JStr ''new'')],
                     files := Map.empty(''a.js'' \<mapsto> ''old'')\<rparr>)
            (userMessage ''Yes, fix it'')) = [Checking, Reviewing, RawText (Some ''Hello!'')]"
proof -
  let ?s = "initial\<lparr>pendingFixes := fixSet [fixEntry ''a.js'' (JStr ''new'')],
                     files := Map.empty(''a.js'' \<mapsto> ''old'')\<rparr>"
  have 1: "msg_type (userMessage ''Yes, fix it'') = ''userMessage''"
    by (simp add: userMessage_def)
  have 2: "getGeminiClient host = Inr ()"
    by (simp add: getGeminiClient_def host_def)
  have 3: "isCodeReviewRequest (toLowerCase host) (msg_text (userMessage ''Yes, fix it''))"
    unfolding userMessage_def by code_simp
  have 4: "outbox (reviewBranch host ?s) = [Checking, Reviewing, RawText (Some ''Hello!'')]"
    by (simp add: reviewBranch_def readWorkspaceFiles_def readFile_def host_def initial_def
        post_def storeProposal_def extractJson_def)
  note t = review_precedes_gate[OF 1 2 3, of ?s]
  have "files (onDidReceiveMessage host ?s (userMessage ''Yes, fix it'')) = files ?s"
    using t by blast
  moreover have "outbox (onDidReceiveMessage host ?s (userMessage ''Yes, fix it''))
                   = [Checking, Reviewing, RawText (Some ''Hello!'')]"
    using t 4 by simp
  ultimately show ?thesis
    by (simp add: initial_def)
qed

lemma handler_review:
  assumes "msg_type m = ''userMessage''" and "getGeminiClient e = Inr ()"
    and "isCodeReviewRequest (toLowerCase e) (msg_text m)"
  shows "onDidReceiveMessage e s m = reviewBranch e s"
  using assms by (simp add: onDidReceiveMessage_def)

text \<open>
  C8. When the review's model response parses to an object whose \<open>files\<close> field is absent
  or an empty list, nothing is held as pending afterwards (\<open>pendingFixes\<close> is \<open>null\<close>, also
  when a fix set was pending before), the replies are the two progress notices and the
  \<open>No issues found\<close> notice, and no file is touched.
\<close>

theorem empty_proposal_discarded:
  assumes "msg_type m = ''userMessage''" and "getGeminiClient e = Inr ()"
    and "isCodeReviewRequest (toLowerCase e) (msg_text m)"
    and "readWorkspaceFiles e (files s) = Inr fs" and "fs \<noteq> []"
    and "generateContent e [(User, buildReviewPrompt fs)] = Inr (Some raw)"
    and "extractJson raw = Inr cleanJson"
    and "jsonParse e cleanJson = Some (JObj kvs)"
    and "map_of kvs ''files'' = None \<or> map_of kvs ''files'' = Some (JArr [])"
  shows "pendingFixes (onDidReceiveMessage e s m) = JNull \<and>
         \<not> truthy (Some (pendingFixes (onDidReceiveMessage e s m))) \<and>
         outbox (onDidReceiveMessage e s m) = outbox s @ [Checking, Reviewing, NoIssues] \<and>
         files (onDidReceiveMessage e s m) = files s"
  using assms(4-9)
  by (auto simp: handler_review[OF assms(1-3)] reviewBranch_def storeProposal_def post_def Let_def)

text \<open>The response \<open>prefix {"files":[]} suffix\<close> of the specification.\<close>

theorem empty_proposal_discarded_witness:
  "pendingFixes (onDidReceiveMessage parsingHost
      (initial\<lparr>pendingFixes := fixSet [fixEntry ''a.js'' (JStr ''new'')],
               files := Map.empty(''a.js'' \<mapsto> ''old'')\<rparr>)
      (userMessage ''check my code'')) = JNull \<and>
   outbox (onDidReceiveMessage parsingHost
      (initial\<lparr>pendingFixes := fixSet [fixEntry ''a.js'' (JStr ''new'')],
               files := Map.empty(''a.js'' \<mapsto> ''old'')\<rparr>)
      (userMessage ''check my code'')) = [Checking, Reviewing, NoIssues]"
proof -
  let ?s = "initial\<lparr>pendingFixes := fixSet [fixEntry ''a.js'' (JStr ''new'')],
                     files := Map.empty(''a.js'' \<mapsto> ''old'')\<rparr>"
  have 1: "msg_type (userMessage ''check my code'') = ''userMessage''"
    by (simp add: userMessage_def)
  have 2: "getGeminiClient parsingHost = Inr ()"
    by (simp add: getGeminiClient_def parsingHost_def host_def)
  have 3: "isCodeReviewRequest (toLowerCase parsingHost) (msg_text (userMessage ''check my code''))"
    unfolding userMessage_def by code_simp
  have 4: "readWorkspaceFiles parsingHost (files ?s) = Inr [(''a.js'', ''old'')]"
    by (simp add: readWorkspaceFiles_def readFile_def parsingHost_def host_def)
  have 5: "[(''a.js'', ''old'')] \<noteq> []"
    by simp
  have 6: "generateContent parsingHost [(User, buildReviewPrompt [(''a.js'', ''old'')])]
             = Inr (Some emptyFilesResponse)"
    by (simp add: parsingHost_def host_def)
  have 7: "extractJson emptyFilesResponse = Inr emptyFilesJson"
    by code_simp
  have 8: "jsonParse parsingHost emptyFilesJson = Some (JObj [(''files'', JArr [])])"
    by (simp add: parsingHost_def host_def)
  have 9: "map_of [(''files'', JArr [])] ''files'' = None \<or>
           map_of [(''files'', JArr [])] ''files'' = Some (JArr [])"
    by simp
  from empty_proposal_discarded[OF 1 2 3 4 5 6 7 8 9] show ?thesis
    by (simp add: initial_def)
qed

subsection \<open>The abort of \<open>applyFixes\<close> and the round trip\<close>




text \<open>
  C9. For a fix set with one entry whose \<open>fixedCode\<close> is a string: when \<open>applyFixes\<close>
  returns normally, reading the entry's file back gives exactly that string, whatever
  the file held before, and no other file has changed.
\<close>

theorem apply_roundtrip:
  assumes "get_prop (Some data) ''files'' = Inr (Some (JArr [entry]))"
    and "get_prop (Some entry) ''fixedCode'' = Inr (Some (JStr code))"
    and "get_prop (Some entry) ''path'' = Inr p"
    and "joinPath e p = Inr uri"
    and "applyFixes e fs data = (fs', None)"
  shows "readFile fs' uri = Inr code \<and> fs' = fs(uri \<mapsto> code)"
  using assms
  by (auto simp: applyFixes_def readFile_def split: if_splits option.splits)

text \<open>The example of the specification: \<open>a.js\<close> with \<open>console.log(1)\<close>, over older content.\<close>

theorem apply_roundtrip_witness:
  "readFile (fst (applyFixes host (Map.empty(''a.js'' \<mapsto> ''old content''))
                    (fixSet [fixEntry ''a.js'' (JStr ''console.log(1)'')]))) ''a.js''
     = Inr ''console.log(1)''"
proof -
  let ?entry = "fixEntry ''a.js'' (JStr ''console.log(1)'')"
  let ?fs = "Map.empty(''a.js'' \<mapsto> ''old content'')"
  have 1: "get_prop (Some (fixSet [?entry])) ''files'' = Inr (Some (JArr [?entry]))"
    by (simp add: fixSet_def)
  have 2: "get_prop (Some ?entry) ''fixedCode'' = Inr (Some (JStr ''console.log(1)''))"
    by (simp add: fixEntry_def)
  have 3: "get_prop (Some ?entry) ''path'' = Inr (Some (JStr ''a.js''))"
    by (simp add: fixEntry_def)
  have 4: "joinPath host (Some (JStr ''a.js'')) = Inr ''a.js''"
    by (simp add: host_def)
  have 5: "applyFixes host ?fs (fixSet [?entry]) = (?fs(''a.js'' \<mapsto> ''console.log(1)''), None)"
    by (simp add: applyFixes_def host_def fixSet_def fixEntry_def)
  from apply_roundtrip[OF 1 2 3 4 5] show ?thesis
    by (simp add: 5)
qed

subsection \<open>The chat branch and the history\<close>

lemma handler_chat:
  assumes "msg_type m = ''userMessage''" and "getGeminiClient e = Inr ()"
    and "\<not> isCodeReviewRequest (toLowerCase e) (msg_text m)"
    and "\<not> truthy (Some (pendingFixes s)) \<or>
         (toLowerCase e (msg_text m) \<noteq> ''yes'' \<and> toLowerCase e (msg_text m) \<noteq> ''apply'' \<and>
          toLowerCase e (msg_text m) \<noteq> ''no'')"
  shows "onDidReceiveMessage e s m = chatBranch e s (msg_text m)"
  using assms by (auto simp: onDidReceiveMessage_def)




lemma hello_not_review: "\<not> isCodeReviewRequest asciiLower ''hello''"
  by code_simp

lemma hello_not_token:
  "asciiLower ''hello'' \<noteq> ''yes'' \<and> asciiLower ''hello'' \<noteq> ''apply'' \<and>
   asciiLower ''hello'' \<noteq> ''no''"
  by code_simp

lemma hello_chat:
  assumes "getGeminiClient e = Inr ()" and "toLowerCase e = asciiLower"
  shows "onDidReceiveMessage e s (userMessage ''hello'') = chatBranch e s ''hello''"
proof -
  have "onDidReceiveMessage e s (userMessage ''hello'')
          = chatBranch e s (msg_text (userMessage ''hello''))"
    using assms hello_not_review hello_not_token
    by (intro handler_chat) (simp_all add: userMessage_def)
  then show ?thesis
    by (simp add: userMessage_def)
qed

lemma hello_answered:
  "history (onDidReceiveMessage host s (userMessage ''hello''))
     = trimHistory (history s @ [(User, ''hello''), (Model, ''Hello!'')])"
proof -
  have "getGeminiClient host = Inr ()" "toLowerCase host = asciiLower"
    by (simp_all add: getGeminiClient_def host_def)
  then have "onDidReceiveMessage host s (userMessage ''hello'') = chatBranch host s ''hello''"
    by (rule hello_chat)
  then show ?thesis
    by (simp add: chatBranch_def host_def post_def Let_def)
qed

lemma hello_failed:
  "history (onDidReceiveMessage downHost s (userMessage ''hello'')) = history s @ [(User, ''hello'')]"
proof -
  have "getGeminiClient downHost = Inr ()" "toLowerCase downHost = asciiLower"
    by (simp_all add: getGeminiClient_def downHost_def host_def)
  then have "onDidReceiveMessage downHost s (userMessage ''hello'') = chatBranch downHost s ''hello''"
    by (rule hello_chat)
  then show ?thesis
    by (simp add: chatBranch_def downHost_def host_def post_def Let_def)
qed

lemma length_trimHistory: "length (trimHistory h) = min (length h) (2 * MAX_TURNS)"
  by (simp add: trimHistory_def Let_def mult.commute)

lemma run_append: "run s (xs @ ys) = run (run s xs) ys"
  by (induction xs arbitrary: s) auto

text \<open>
  What \<open>trimHistory\<close> is there for: after a chat step whose model call returns, the history
  holds at most \<open>2 * MAX_TURNS\<close> entries, whatever it held before.
\<close>

lemma chat_answered_bounded:
  assumes "generateContent e (history s @ [(User, t)]) = Inr raw"
  shows "length (history (chatBranch e s t)) \<le> 2 * MAX_TURNS"
  using assms by (simp add: chatBranch_def post_def Let_def length_trimHistory)

lemma sixChats_history:
  "history (run initial sixChats) =
     [(User, ''hello''), (Model, ''Hello!''), (User, ''hello''), (Model, ''Hello!''),
      (User, ''hello''), (Model, ''Hello!''), (User, ''hello''), (Model, ''Hello!''),
      (User, ''hello''), (Model, ''Hello!''), (User, ''hello''), (Model, ''Hello!'')]"
  by (simp add: sixChats_def eval_nat_numeral hello_answered trimHistory_def MAX_TURNS_def
      initial_def)

text \<open>
  C4. The claim does not hold of the code when a model call fails. Six chat messages are
  answered, and the history holds 12 entries; a seventh message whose model call throws
  leaves 13, more than \<open>2 * MAX_TURNS\<close>, because the user turn was pushed before the call
  and \<open>trimHistory\<close> is reached only after a reply. When an eighth message is answered,
  \<open>trimHistory\<close> cuts the 15 entries back to 12 by dropping the first three (a user turn,
  a model turn and a user turn), which is not a number of whole pairs, and the history
  then begins with a model turn.
\<close>

theorem history_exceeds_bound_example:
  "length (history (run initial (sixChats @ [(downHost, userMessage ''hello'')]))) = 13 \<and>
   \<not> length (history (run initial (sixChats @ [(downHost, userMessage ''hello'')])))
       \<le> 2 * MAX_TURNS \<and>
   history (run initial (sixChats @ [(downHost, userMessage ''hello''), (host, userMessage ''hello'')]))
     = drop 3 (history (run initial (sixChats @ [(downHost, userMessage ''hello'')]))
               @ [(User, ''hello''), (Model, ''Hello!'')]) \<and>
   take 3 (history (run initial (sixChats @ [(downHost, userMessage ''hello'')])))
     = [(User, ''hello''), (Model, ''Hello!''), (User, ''hello'')] \<and>
   \<not> paired (take 3 (history (run initial (sixChats @ [(downHost, userMessage ''hello'')])))) \<and>
   \<not> paired (history (run initial
       (sixChats @ [(downHost, userMessage ''hello''), (host, userMessage ''hello'')])))"
proof -
  have failed: "history (run initial (sixChats @ [(downHost, userMessage ''hello'')]))
                  = history (run initial sixChats) @ [(User, ''hello'')]"
    by (simp add: run_append hello_failed)
  have answered:
    "history (run initial (sixChats @ [(downHost, userMessage ''hello''), (host, userMessage ''hello'')]))
       = trimHistory (history (run initial sixChats)
                      @ [(User, ''hello''), (User, ''hello''), (Model, ''Hello!'')])"
    by (simp add: run_append hello_failed hello_answered)
  show ?thesis
    unfolding failed answered sixChats_history
    by (simp add: trimHistory_def MAX_TURNS_def)
qed

subsection \<open>When the pending fix state is cleared\<close>


















end
